theory Spec2Isabelle
  imports Main "HOL-Library.Word" "HOL-Library.Sublist"
begin

section \<open>Go library functions used by the two programs\<close>

text \<open>
  The repository holds two Go programs in one file: the command-line table printer
  (\<open>main\<close> with \<open>LeaseEntry\<close>) and the web page (\<open>parseLeases\<close>, \<open>leaseHandler\<close> with
  \<open>Lease\<close>). Both call \<open>strings.Fields\<close>, \<open>strconv.ParseInt\<close>, \<open>time.Unix\<close> and
  \<open>bufio.Scanner\<close>. A Go string is a sequence of bytes, here a \<open>char list\<close>.
\<close>

subsection \<open>UTF-8 decoding and \<open>unicode.IsSpace\<close>\<close>

definition byte :: "char \<Rightarrow> nat" where
  "byte c = of_char c"

definition RuneError :: nat where
  "RuneError = 0xFFFD"

text \<open>
  \<open>utf8.DecodeRuneInString\<close>: the rune at the start of the string and its width in
  bytes. An invalid or truncated encoding is \<open>RuneError\<close> of width 1; the empty string
  is \<open>RuneError\<close> of width 0. The first byte selects the size and the accepted range of
  the second byte, as the tables \<open>first\<close> and \<open>acceptRanges\<close> do.
\<close>

definition DecodeRuneInString :: "string \<Rightarrow> nat \<times> nat" where
  "DecodeRuneInString s =
     (case s of
        [] \<Rightarrow> (RuneError, 0)
      | c0 # _ \<Rightarrow>
          (let s0 = byte c0 in
           if s0 < 0x80 then (s0, 1)
           else if s0 < 0xC2 \<or> 0xF4 < s0 then (RuneError, 1)
           else
             (let sz = (if s0 < 0xE0 then 2 else if s0 < 0xF0 then 3 else (4::nat));
                  lo = (if s0 = 0xE0 then 0xA0 else if s0 = 0xF0 then 0x90 else 0x80);
                  hi = (if s0 = 0xED then 0x9F else if s0 = 0xF4 then 0x8F else 0xBF)
              in if length s < sz then (RuneError, 1)
                 else
                   (let s1 = byte (s ! 1) in
                    if s1 < lo \<or> hi < s1 then (RuneError, 1)
                    else if sz \<le> 2 then ((s0 mod 32) * 64 + s1 mod 64, 2)
                    else
                      (let s2 = byte (s ! 2) in
                       if s2 < 0x80 \<or> 0xBF < s2 then (RuneError, 1)
                       else if sz \<le> 3
                         then ((s0 mod 16) * 4096 + (s1 mod 64) * 64 + s2 mod 64, 3)
                       else
                         (let s3 = byte (s ! 3) in
                          if s3 < 0x80 \<or> 0xBF < s3 then (RuneError, 1)
                          else ((s0 mod 8) * 262144 + (s1 mod 64) * 4096
                                  + (s2 mod 64) * 64 + s3 mod 64, 4)))))))"

text \<open>
  \<open>unicode.IsSpace\<close>: in Latin-1 the six ASCII spaces, U+0085 and U+00A0; beyond it
  the code points of the \<open>White_Space\<close> range table.
\<close>

definition IsSpace :: "nat \<Rightarrow> bool" where
  "IsSpace r =
     (if r \<le> 0xFF
      then r = 0x09 \<or> r = 0x0A \<or> r = 0x0B \<or> r = 0x0C \<or> r = 0x0D \<or> r = 0x20
             \<or> r = 0x85 \<or> r = 0xA0
      else r = 0x1680 \<or> (0x2000 \<le> r \<and> r \<le> 0x200A) \<or> r = 0x2028 \<or> r = 0x2029
             \<or> r = 0x202F \<or> r = 0x205F \<or> r = 0x3000)"

subsection \<open>\<open>strings.Fields\<close>\<close>

text \<open>
  \<open>strings.Fields s\<close> is \<open>strings.FieldsFunc s unicode.IsSpace\<close> (its ASCII fast path
  computes the same fields). \<open>FieldsFunc\<close> ranges over the runes of \<open>s\<close> with their byte
  offsets \<open>end\<close>, keeping in \<open>start\<close> the offset where the current field began, or a
  negative number between fields, and collects the spans \<open>(start, end)\<close>.
\<close>

function FieldsFunc_loop ::
    "(nat \<Rightarrow> bool) \<Rightarrow> string \<Rightarrow> nat \<Rightarrow> int \<Rightarrow> (nat \<times> nat) list \<Rightarrow> int \<times> (nat \<times> nat) list" where
  "FieldsFunc_loop f s end start spans =
     (if length s \<le> end then (start, spans)
      else
        (let rw = DecodeRuneInString (drop end s);
             rune = fst rw;
             next = end + snd rw
         in if f rune
            then (if 0 \<le> start
                  then FieldsFunc_loop f s next (- 1 - start) (spans @ [(nat start, end)])
                  else FieldsFunc_loop f s next start spans)
            else (if start < 0
                  then FieldsFunc_loop f s next (int end) spans
                  else FieldsFunc_loop f s next start spans)))"
  by pat_completeness auto
termination
proof -
  have width: "0 < snd (DecodeRuneInString t)" if "t \<noteq> []" for t
    using that by (cases t) (auto simp: DecodeRuneInString_def Let_def)
  have step: "length s - (e + snd (DecodeRuneInString (drop e s))) < length s - e"
    if "\<not> length s \<le> e" for s e
    using that width [of "drop e s"] by simp
  show ?thesis
    by (relation "measure (\<lambda>(f, s, e, start, spans). length s - e)")
      (simp_all add: step)
qed

declare FieldsFunc_loop.simps [simp del]

definition FieldsFunc :: "string \<Rightarrow> (nat \<Rightarrow> bool) \<Rightarrow> string list" where
  "FieldsFunc s f =
     (let r = FieldsFunc_loop f s 0 (- 1) [];
          start = fst r;
          spans = (if 0 \<le> start then snd r @ [(nat start, length s)] else snd r)
      in map (\<lambda>(a, b). take (b - a) (drop a s)) spans)"

definition Fields :: "string \<Rightarrow> string list" where
  "Fields s = FieldsFunc s IsSpace"

subsection \<open>\<open>strconv.ParseInt\<close>\<close>

text \<open>
  Both programs call \<open>strconv.ParseInt(fields[0], 10, 64)\<close>. A \<open>uint64\<close> and an
  \<open>int64\<close> are 64-bit words; \<open>sint\<close> reads the signed value. The functions return
  Go's pair of a value and an error, the error being the \<open>Err\<close> field of the
  \<open>*NumError\<close>.
\<close>

datatype NumError = ErrSyntax | ErrRange

definition maxUint64 :: "64 word" where
  "maxUint64 = 0xFFFFFFFFFFFFFFFF"

text \<open>
  The digit loop of \<open>ParseUint\<close> for base 10 and bit size 64. In base 10 a letter is a
  digit value of at least 10 and so a syntax error, like every other byte that is not a
  decimal digit; the underscore is a digit separator only for base 0. \<open>cutoff\<close> is
  \<open>maxUint64/10 + 1\<close> and \<open>maxVal\<close> is \<open>maxUint64\<close>.
\<close>

fun ParseUint_loop :: "string \<Rightarrow> 64 word \<Rightarrow> 64 word \<times> NumError option" where
  "ParseUint_loop [] n = (n, None)"
| "ParseUint_loop (c # cs) n =
     (if byte CHR ''0'' \<le> byte c \<and> byte c \<le> byte CHR ''9''
      then
        (let d = (of_nat (byte c - byte CHR ''0'') :: 64 word) in
         if n \<ge> maxUint64 div 10 + 1 then (maxUint64, Some ErrRange)
         else
           (let n' = n * 10; n1 = n' + d in
            if n1 < n' \<or> n1 > maxUint64 then (maxUint64, Some ErrRange)
            else ParseUint_loop cs n1))
      else (0, Some ErrSyntax))"

definition ParseUint :: "string \<Rightarrow> 64 word \<times> NumError option" where
  "ParseUint s = (if s = [] then (0, Some ErrSyntax) else ParseUint_loop s 0)"

text \<open>
  \<open>ParseInt\<close> picks off a leading sign, parses the rest unsigned and checks the signed
  range; \<open>cutoff\<close> is \<open>1 << 63\<close>. A range error of \<open>ParseUint\<close> falls through to the
  range checks with \<open>un = maxUint64\<close>.
\<close>

definition ParseInt :: "string \<Rightarrow> 64 word \<times> NumError option" where
  "ParseInt s =
     (if s = [] then (0, Some ErrSyntax)
      else
        (let neg = (hd s = CHR ''-'');
             s' = (if hd s = CHR ''+'' \<or> hd s = CHR ''-'' then tl s else s);
             r = ParseUint s';
             un = fst r;
             cutoff = (2 ^ 63 :: 64 word)
         in if snd r \<noteq> None \<and> snd r \<noteq> Some ErrRange then (0, snd r)
            else if \<not> neg \<and> un \<ge> cutoff then (cutoff - 1, Some ErrRange)
            else if neg \<and> un > cutoff then (- cutoff, Some ErrRange)
            else (if neg then - un else un, None)))"

subsection \<open>\<open>time.Unix\<close>\<close>

text \<open>
  A \<open>time.Time\<close> is the struct of a wall field, the seconds since year 1 in \<open>ext\<close>
  (an \<open>int64\<close>) and a location. \<open>time.Unix(sec, 0)\<close> is
  \<open>Time{0, sec + unixToInternal, Local}\<close>, and the method \<open>Unix\<close> reads the seconds
  back.
\<close>

datatype Location = Local

record Time =
  wall :: "64 word"
  ext :: "64 word"
  loc :: Location

definition unixToInternal :: "64 word" where
  "unixToInternal = (1969 * 365 + 1969 div 4 - 1969 div 100 + 1969 div 400) * 86400"

definition time_Unix :: "64 word \<Rightarrow> Time" where
  "time_Unix sec = \<lparr>wall = 0, ext = sec + unixToInternal, loc = Local\<rparr>"


subsection \<open>\<open>bufio.Scanner\<close> with its default split function \<open>ScanLines\<close>\<close>

text \<open>
  An opened file delivers its bytes and then either \<open>io.EOF\<close> or a read error; the
  error is kept by its text.
\<close>

record File =
  bytes :: string
  read_err :: "string option"

definition MaxScanTokenSize :: nat where
  "MaxScanTokenSize = 64 * 1024"

definition ErrTooLong :: string where
  "ErrTooLong = ''bufio.Scanner: token too long''"

definition dropCR :: "string \<Rightarrow> string" where
  "dropCR data = (if data \<noteq> [] \<and> last data = CHR 0x0D then butlast data else data)"

text \<open>
  The tokens that successive calls of \<open>Scan\<close> deliver, and what \<open>Err\<close> returns after the
  last one. A line ends at a newline, which is dropped together with one carriage
  return before it; the bytes after the last newline are a final line when there are
  any, also when the read ended in an error. A line that does not fit the buffer of
  \<open>MaxScanTokenSize\<close> bytes stops the scanner with \<open>ErrTooLong\<close>.
\<close>

function Scanner_lines :: "string \<Rightarrow> string option \<Rightarrow> string list \<times> string option" where
  "Scanner_lines buf err =
     (let line = takeWhile (\<lambda>c. c \<noteq> CHR 0x0A) buf;
          rest = dropWhile (\<lambda>c. c \<noteq> CHR 0x0A) buf
      in if MaxScanTokenSize \<le> length line then ([], Some ErrTooLong)
         else if rest = [] then (if line = [] then [] else [dropCR line], err)
         else (let r = Scanner_lines (tl rest) err in (dropCR line # fst r, snd r)))"
  by pat_completeness auto
termination
proof -
  have shorter: "length (dropWhile P xs) - Suc 0 < length xs" if "x \<in> set xs"
    for P :: "char \<Rightarrow> bool" and xs x
    using that length_dropWhile_le [of P xs] length_pos_if_in_set [of x xs] by arith
  show ?thesis
    by (relation "measure (\<lambda>(buf, err). length buf)") (simp_all add: shorter)
qed

declare Scanner_lines.simps [simp del]

section \<open>The environment of a run\<close>

text \<open>
  What a run of either program reads: the environment variables, the file system and
  the clock; and the one thing both write besides their output, the log. A path of the
  file system that is absent cannot be opened; a present one is either refused by the
  system (with the system's error text) or opens as a file. \<open>local_format\<close> stands for
  \<open>Time.Format\<close> in the local time zone of the process, which is not part of the
  repository.
\<close>

datatype Node = Refused string | Opens File

datatype LogMsg =
    Info_default_path
  | Info_env_path string
  | Fatal_open string string
  | Fatal_read string string
  | Skip_field_count nat nat string
  | Skip_timestamp nat string NumError
  | Web_skip_field_count string
  | Web_skip_timestamp string NumError
  | Web_parse_failed string

record World =
  env :: "string \<rightharpoonup> string"
  files :: "string \<rightharpoonup> Node"
  now :: Time
  local_format :: "string \<Rightarrow> Time \<Rightarrow> string"
  log :: "LogMsg list"

definition Getenv :: "World \<Rightarrow> string \<Rightarrow> string" where
  "Getenv w key = (case env w key of None \<Rightarrow> [] | Some v \<Rightarrow> v)"

text \<open>\<open>os.Open\<close>: the file, or the text of the \<open>*PathError\<close>.\<close>

definition os_Open :: "World \<Rightarrow> string \<Rightarrow> string + File" where
  "os_Open w name =
     (case files w name of
        None \<Rightarrow> Inl (''open '' @ name @ '': no such file or directory'')
      | Some (Refused e) \<Rightarrow> Inl (''open '' @ name @ '': '' @ e)
      | Some (Opens f) \<Rightarrow> Inr f)"

section \<open>The command-line program\<close>

record LeaseEntry =
  ExpiryTime :: Time
  MACAddress :: string
  IPAddress :: string
  Hostname :: string
  ClientID :: string

definition defaultLeaseFilePath :: string where
  "defaultLeaseFilePath = ''/var/lib/misc/dnsmasq.leases''"

definition envVarLeasePath :: string where
  "envVarLeasePath = ''DNSMASQ_LEASES''"

text \<open>
  The loop \<open>for scanner.Scan()\<close> of \<open>main\<close>, over the lines the scanner delivers, with
  the variables \<open>lineNumber\<close> and \<open>leases\<close> and the log as its state.
\<close>

fun main_scan_loop ::
    "string list \<Rightarrow> nat \<Rightarrow> LeaseEntry list \<Rightarrow> LogMsg list \<Rightarrow> LeaseEntry list \<times> LogMsg list" where
  "main_scan_loop [] lineNumber leases lg = (leases, lg)"
| "main_scan_loop (line # rest) lineNumber leases lg =
     (let lineNumber = lineNumber + 1;
          fields = Fields line
      in if length fields \<noteq> 5
         then main_scan_loop rest lineNumber leases
                (lg @ [Skip_field_count lineNumber (length fields) line])
         else
           (case ParseInt (fields ! 0) of
              (expiryTimestampUnix, Some err) \<Rightarrow>
                main_scan_loop rest lineNumber leases
                  (lg @ [Skip_timestamp lineNumber (fields ! 0) err])
            | (expiryTimestampUnix, None) \<Rightarrow>
                (let expiryTime = time_Unix expiryTimestampUnix;
                     lease = \<lparr>ExpiryTime = expiryTime,
                              MACAddress = fields ! 1,
                              IPAddress = fields ! 2,
                              Hostname = fields ! 3,
                              ClientID = fields ! 4\<rparr>
                 in main_scan_loop rest lineNumber (leases @ [lease]) lg)))"

declare main_scan_loop.simps(2) [simp del]

text \<open>
  What \<open>main\<close> writes to standard output: a line printed directly, or the lines handed
  to the \<open>tabwriter\<close> and flushed through it.
\<close>

datatype Written = Println string | Tabwriter_Flush "string list"

record Outcome =
  stdout :: "Written list"
  exit_code :: nat

definition table_header :: "string list" where
  "table_header =
     [''Expiry Time'' @ [CHR 0x09] @ ''MAC Address'' @ [CHR 0x09] @ ''IP Address''
        @ [CHR 0x09] @ ''Hostname'' @ [CHR 0x09] @ ''Client ID'' @ [CHR 0x0A],
      ''-----------'' @ [CHR 0x09] @ ''-----------'' @ [CHR 0x09] @ ''----------''
        @ [CHR 0x09] @ ''--------'' @ [CHR 0x09] @ ''---------'' @ [CHR 0x0A]]"

definition table_row :: "World \<Rightarrow> LeaseEntry \<Rightarrow> string" where
  "table_row w lease =
     (let formattedTime = local_format w ''2006-01-02 15:04:05'' (ExpiryTime lease)
      in formattedTime @ [CHR 0x09] @ MACAddress lease @ [CHR 0x09] @ IPAddress lease
           @ [CHR 0x09] @ Hostname lease @ [CHR 0x09] @ ClientID lease @ [CHR 0x0A])"

definition no_entries_message :: string where
  "no_entries_message = ''No lease entries found or file is empty.''"

text \<open>The path \<open>main\<close> reads: lines 28 to 34.\<close>

definition main_leaseFilePath :: "World \<Rightarrow> string" where
  "main_leaseFilePath w =
     (let leaseFilePath = Getenv w envVarLeasePath
      in if leaseFilePath = [] then defaultLeaseFilePath else leaseFilePath)"

text \<open>The slice \<open>leases\<close> and the log when the loop of \<open>main\<close> over an opened file ends.\<close>

definition main_leases :: "File \<Rightarrow> LogMsg list \<Rightarrow> LeaseEntry list \<times> LogMsg list" where
  "main_leases file lg =
     main_scan_loop (fst (Scanner_lines (bytes file) (read_err file))) 0 [] lg"

text \<open>\<open>main\<close> of the command-line program; \<open>log.Fatalf\<close> exits with status 1.\<close>

definition cli_main :: "World \<Rightarrow> Outcome \<times> World" where
  "cli_main w =
     (let leaseFilePath = main_leaseFilePath w;
          lg = log w @ [if Getenv w envVarLeasePath = [] then Info_default_path
                        else Info_env_path leaseFilePath]
      in case os_Open w leaseFilePath of
           Inl err \<Rightarrow>
             (\<lparr>stdout = [], exit_code = 1\<rparr>, w\<lparr>log := lg @ [Fatal_open leaseFilePath err]\<rparr>)
         | Inr file \<Rightarrow>
             (let r = main_leases file lg;
                  leases = fst r
              in case snd (Scanner_lines (bytes file) (read_err file)) of
                   Some err \<Rightarrow>
                     (\<lparr>stdout = [], exit_code = 1\<rparr>,
                      w\<lparr>log := snd r @ [Fatal_read leaseFilePath err]\<rparr>)
                 | None \<Rightarrow>
                     if length leases = 0
                     then (\<lparr>stdout = [Println no_entries_message], exit_code = 0\<rparr>,
                           w\<lparr>log := snd r\<rparr>)
                     else (\<lparr>stdout = [Tabwriter_Flush (table_header @ map (table_row w) leases)],
                            exit_code = 0\<rparr>,
                           w\<lparr>log := snd r\<rparr>)))"

section \<open>The web program\<close>

record Lease =
  ExpiryTime' :: Time
  MACAddress' :: string
  IPAddress' :: string
  Hostname' :: string
  ClientID' :: string

definition leasesFilePath :: string where
  "leasesFilePath = ''/var/lib/misc/dnsmasq.leases''"

text \<open>The texts of the three messages that reach the caller, as the bytes of the source.\<close>

definition msg_open_failed :: string where
  "msg_open_failed =
     [CHR 0xD0, CHR 0xBD, CHR 0xD0, CHR 0xB5] @ '' ''
     @ [CHR 0xD1, CHR 0x83, CHR 0xD0, CHR 0xB4, CHR 0xD0, CHR 0xB0, CHR 0xD0, CHR 0xBB,
        CHR 0xD0, CHR 0xBE, CHR 0xD1, CHR 0x81, CHR 0xD1, CHR 0x8C] @ '' ''
     @ [CHR 0xD0, CHR 0xBE, CHR 0xD1, CHR 0x82, CHR 0xD0, CHR 0xBA, CHR 0xD1, CHR 0x80,
        CHR 0xD1, CHR 0x8B, CHR 0xD1, CHR 0x82, CHR 0xD1, CHR 0x8C] @ '' ''
     @ [CHR 0xD1, CHR 0x84, CHR 0xD0, CHR 0xB0, CHR 0xD0, CHR 0xB9, CHR 0xD0, CHR 0xBB] @ '' ''"

definition msg_read_failed :: string where
  "msg_read_failed =
     [CHR 0xD0, CHR 0xBE, CHR 0xD1, CHR 0x88, CHR 0xD0, CHR 0xB8, CHR 0xD0, CHR 0xB1,
      CHR 0xD0, CHR 0xBA, CHR 0xD0, CHR 0xB0] @ '' ''
     @ [CHR 0xD0, CHR 0xBF, CHR 0xD1, CHR 0x80, CHR 0xD0, CHR 0xB8] @ '' ''
     @ [CHR 0xD1, CHR 0x87, CHR 0xD1, CHR 0x82, CHR 0xD0, CHR 0xB5, CHR 0xD0, CHR 0xBD,
        CHR 0xD0, CHR 0xB8, CHR 0xD0, CHR 0xB8] @ '' ''
     @ [CHR 0xD1, CHR 0x84, CHR 0xD0, CHR 0xB0, CHR 0xD0, CHR 0xB9, CHR 0xD0, CHR 0xBB,
        CHR 0xD0, CHR 0xB0] @ '' ''"

definition msg_handler_failed :: string where
  "msg_handler_failed =
     [CHR 0xD0, CHR 0x9D, CHR 0xD0, CHR 0xB5] @ '' ''
     @ [CHR 0xD1, CHR 0x83, CHR 0xD0, CHR 0xB4, CHR 0xD0, CHR 0xB0, CHR 0xD0, CHR 0xBB,
        CHR 0xD0, CHR 0xBE, CHR 0xD1, CHR 0x81, CHR 0xD1, CHR 0x8C] @ '' ''
     @ [CHR 0xD0, CHR 0xBF, CHR 0xD1, CHR 0x80, CHR 0xD0, CHR 0xBE, CHR 0xD1, CHR 0x87,
        CHR 0xD0, CHR 0xB8, CHR 0xD1, CHR 0x82, CHR 0xD0, CHR 0xB0, CHR 0xD1, CHR 0x82,
        CHR 0xD1, CHR 0x8C] @ '' ''
     @ [CHR 0xD0, CHR 0xB8, CHR 0xD0, CHR 0xBB, CHR 0xD0, CHR 0xB8] @ '' ''
     @ [CHR 0xD0, CHR 0xBE, CHR 0xD0, CHR 0xB1, CHR 0xD1, CHR 0x80, CHR 0xD0, CHR 0xB0,
        CHR 0xD0, CHR 0xB1, CHR 0xD0, CHR 0xBE, CHR 0xD1, CHR 0x82, CHR 0xD0, CHR 0xB0,
        CHR 0xD1, CHR 0x82, CHR 0xD1, CHR 0x8C] @ '' ''
     @ [CHR 0xD1, CHR 0x84, CHR 0xD0, CHR 0xB0, CHR 0xD0, CHR 0xB9, CHR 0xD0, CHR 0xBB]
     @ '' leases: ''"

text \<open>The loop \<open>for scanner.Scan()\<close> of \<open>parseLeases\<close>, with \<open>leases\<close> and the log as state.\<close>

fun parseLeases_loop ::
    "string list \<Rightarrow> Lease list \<Rightarrow> LogMsg list \<Rightarrow> Lease list \<times> LogMsg list" where
  "parseLeases_loop [] leases lg = (leases, lg)"
| "parseLeases_loop (line # rest) leases lg =
     (let fields = Fields line
      in if length fields < 4
         then parseLeases_loop rest leases (lg @ [Web_skip_field_count line])
         else
           (case ParseInt (fields ! 0) of
              (expiryUnix, Some err) \<Rightarrow>
                parseLeases_loop rest leases (lg @ [Web_skip_timestamp line err])
            | (expiryUnix, None) \<Rightarrow>
                (let expiryTime = time_Unix expiryUnix;
                     macAddress = fields ! 1;
                     ipAddress = fields ! 2;
                     hostname = (if fields ! 3 = ''*'' then ''N/A'' else fields ! 3);
                     clientID = (if length fields > 4 then fields ! 4 else ''N/A'')
                 in parseLeases_loop rest
                      (leases @ [\<lparr>ExpiryTime' = expiryTime,
                                  MACAddress' = macAddress,
                                  IPAddress' = ipAddress,
                                  Hostname' = hostname,
                                  ClientID' = clientID\<rparr>])
                      lg)))"

declare parseLeases_loop.simps(2) [simp del]

text \<open>
  \<open>parseLeases\<close> returns Go's pair of the slice and the error; the nil slice is the empty
  list. The world comes back with the warnings logged.
\<close>

definition parseLeases :: "World \<Rightarrow> string \<Rightarrow> (Lease list \<times> string option) \<times> World" where
  "parseLeases w filePath =
     (case os_Open w filePath of
        Inl err \<Rightarrow> (([], Some (msg_open_failed @ filePath @ '': '' @ err)), w)
      | Inr file \<Rightarrow>
          (let sc = Scanner_lines (bytes file) (read_err file);
               r = parseLeases_loop (fst sc) [] (log w);
               w' = w\<lparr>log := snd r\<rparr>
           in case snd sc of
                Some err \<Rightarrow> (([], Some (msg_read_failed @ filePath @ '': '' @ err)), w')
              | None \<Rightarrow> ((fst r, None), w')))"

text \<open>
  The response of the handler: the status, the headers it sets and the body, which is
  either a text or the page template executed on its data.
\<close>

record PageData =
  Leases :: "Lease list"
  LeasesFilePath :: string
  CurrentTime :: Time

datatype Body = Text (body_text: string) | Page (body_page: PageData)

record Response =
  status :: nat
  headers :: "(string \<times> string) list"
  body :: Body

definition StatusInternalServerError :: nat where
  "StatusInternalServerError = 500"

definition StatusOK :: nat where
  "StatusOK = 200"

text \<open>\<open>http.Error\<close> writes the message and a newline as plain text under the given status.\<close>

definition http_Error :: "string \<Rightarrow> nat \<Rightarrow> Response" where
  "http_Error msg code =
     \<lparr>status = code,
      headers = [(''Content-Type'', ''text/plain; charset=utf-8''),
                 (''X-Content-Type-Options'', ''nosniff'')],
      body = Text (msg @ [CHR 0x0A])\<rparr>"

text \<open>
  \<open>leaseHandler\<close>. The template is a constant of the source that parses, so the branch
  for a template that does not parse is never taken.
\<close>

definition leaseHandler :: "World \<Rightarrow> Response \<times> World" where
  "leaseHandler w =
     (case parseLeases w leasesFilePath of
        ((leases, Some err), w') \<Rightarrow>
          (http_Error (msg_handler_failed @ err) StatusInternalServerError,
           w'\<lparr>log := log w' @ [Web_parse_failed err]\<rparr>)
      | ((leases, None), w') \<Rightarrow>
          (\<lparr>status = StatusOK,
            headers = [(''Content-Type'', ''text/html; charset=utf-8'')],
            body = Page \<lparr>Leases = leases,
                         LeasesFilePath = leasesFilePath,
                         CurrentTime = now w'\<rparr>\<rparr>,
           w'))"

section \<open>The notions of the specification\<close>

text \<open>
  The specification calls a line well-formed when it splits into the number of fields
  its variant expects and its first field parses as a base-10 integer: exactly five
  fields for the strict variant (the command-line program), at least four for the
  lenient one (the web program). The record of a well-formed line takes the fields by
  position. These definitions follow the specification's words and are compared below
  with the loops of the source.
\<close>

definition spec_well_formed_strict :: "string \<Rightarrow> bool" where
  "spec_well_formed_strict line \<longleftrightarrow>
     length (Fields line) = 5 \<and> snd (ParseInt (Fields line ! 0)) = None"

definition spec_well_formed_lenient :: "string \<Rightarrow> bool" where
  "spec_well_formed_lenient line \<longleftrightarrow>
     4 \<le> length (Fields line) \<and> snd (ParseInt (Fields line ! 0)) = None"

definition spec_record_strict :: "string \<Rightarrow> LeaseEntry" where
  "spec_record_strict line =
     \<lparr>ExpiryTime = time_Unix (fst (ParseInt (Fields line ! 0))),
      MACAddress = Fields line ! 1,
      IPAddress = Fields line ! 2,
      Hostname = Fields line ! 3,
      ClientID = Fields line ! 4\<rparr>"

definition spec_record_lenient :: "string \<Rightarrow> Lease" where
  "spec_record_lenient line =
     \<lparr>ExpiryTime' = time_Unix (fst (ParseInt (Fields line ! 0))),
      MACAddress' = Fields line ! 1,
      IPAddress' = Fields line ! 2,
      Hostname' = (if Fields line ! 3 = ''*'' then ''N/A'' else Fields line ! 3),
      ClientID' = (if 4 < length (Fields line) then Fields line ! 4 else ''N/A'')\<rparr>"




text \<open>The two example lines of the specification.\<close>

definition example_line_full :: string where
  "example_line_full =
     ''1700000000 aa:bb:cc:dd:ee:ff 192.168.1.50 myhost 01:aa:bb:cc:dd:ee:ff''"

definition example_line_short :: string where
  "example_line_short = ''1700000000 aa:bb:cc:dd:ee:ff 192.168.1.50 *''"

text \<open>
  An example file for the evaluations below: a line of two fields, the full example line
  ended by carriage return and newline, and the short example line; and a world that
  holds it at the default path, with no environment variable set.
\<close>

definition example_file :: File where
  "example_file =
     \<lparr>bytes = ''x y'' @ [CHR 0x0A] @ example_line_full @ [CHR 0x0D, CHR 0x0A]
               @ example_line_short @ [CHR 0x0A],
      read_err = None\<rparr>"

definition example_world :: World where
  "example_world =
     \<lparr>env = Map.empty,
      files = [''/var/lib/misc/dnsmasq.leases'' \<mapsto> Opens example_file],
      now = time_Unix 1700000100,
      local_format = (\<lambda>layout t. layout),
      log = []\<rparr>"



definition empty_world :: World where
  "empty_world =
     \<lparr>env = Map.empty,
      files = [''/var/lib/misc/dnsmasq.leases'' \<mapsto> Opens \<lparr>bytes = [], read_err = None\<rparr>],
      now = time_Unix 1700000100,
      local_format = (\<lambda>layout t. layout),
      log = []\<rparr>"

text \<open>
  A lease file whose read ends in an error after the full example line and the start of
  another line, a world that holds it at the default path, and a world with no file.
\<close>

definition faulty_file :: File where
  "faulty_file =
     \<lparr>bytes = example_line_full @ [CHR 0x0A] @ ''1700000'',
      read_err = Some ''read /var/lib/misc/dnsmasq.leases: input/output error''\<rparr>"

definition faulty_world :: World where
  "faulty_world =
     \<lparr>env = Map.empty,
      files = [''/var/lib/misc/dnsmasq.leases'' \<mapsto> Opens faulty_file],
      now = time_Unix 1700000100,
      local_format = (\<lambda>layout t. layout),
      log = []\<rparr>"

definition missing_world :: World where
  "missing_world =
     \<lparr>env = Map.empty,
      files = Map.empty,
      now = time_Unix 1700000100,
      local_format = (\<lambda>layout t. layout),
      log = []\<rparr>"

text \<open>A line of five fields whose hostname and client ID are both the sentinel.\<close>

definition sentinel_line :: string where
  "sentinel_line = ''1700000000 aa:bb:cc:dd:ee:ff 192.168.1.50 * *''"







section \<open>What \<open>strconv.ParseInt\<close> accepts\<close>














section \<open>The loops, line by line\<close>

lemma main_scan_loop_skip:
  "\<not> spec_well_formed_strict line \<Longrightarrow>
   \<exists>d. main_scan_loop (line # rest) k leases lg = main_scan_loop rest (Suc k) leases (lg @ [d])"
  by (auto simp: main_scan_loop.simps(2) spec_well_formed_strict_def Let_def
      split: prod.splits option.splits)

lemma main_scan_loop_keep:
  "spec_well_formed_strict line \<Longrightarrow>
   main_scan_loop (line # rest) k leases lg
     = main_scan_loop rest (Suc k) (leases @ [spec_record_strict line]) lg"
  by (auto simp: main_scan_loop.simps(2) spec_well_formed_strict_def spec_record_strict_def
      Let_def split: prod.splits option.splits)

lemma main_scan_loop_leases:
  "fst (main_scan_loop ls k leases lg)
     = leases @ map spec_record_strict (filter spec_well_formed_strict ls)"
proof (induction ls arbitrary: k leases lg)
  case Nil
  show ?case by simp
next
  case (Cons line rest)
  show ?case
  proof (cases "spec_well_formed_strict line")
    case True
    then show ?thesis
      by (simp add: main_scan_loop_keep Cons.IH)
  next
    case False
    then obtain d where "main_scan_loop (line # rest) k leases lg
        = main_scan_loop rest (Suc k) leases (lg @ [d])"
      using main_scan_loop_skip by blast
    with False show ?thesis
      using Cons.IH by simp
  qed
qed

lemma parseLeases_loop_skip:
  "\<not> spec_well_formed_lenient line \<Longrightarrow>
   \<exists>d. parseLeases_loop (line # rest) leases lg = parseLeases_loop rest leases (lg @ [d])"
  by (auto simp: parseLeases_loop.simps(2) spec_well_formed_lenient_def Let_def
      split: prod.splits option.splits)

lemma parseLeases_loop_keep:
  "spec_well_formed_lenient line \<Longrightarrow>
   parseLeases_loop (line # rest) leases lg
     = parseLeases_loop rest (leases @ [spec_record_lenient line]) lg"
  by (auto simp: parseLeases_loop.simps(2) spec_well_formed_lenient_def
      spec_record_lenient_def Let_def split: prod.splits option.splits)

lemma parseLeases_loop_leases:
  "fst (parseLeases_loop ls leases lg)
     = leases @ map spec_record_lenient (filter spec_well_formed_lenient ls)"
proof (induction ls arbitrary: leases lg)
  case Nil
  show ?case by simp
next
  case (Cons line rest)
  show ?case
  proof (cases "spec_well_formed_lenient line")
    case True
    then show ?thesis
      by (simp add: parseLeases_loop_keep Cons.IH)
  next
    case False
    then obtain d where "parseLeases_loop (line # rest) leases lg
        = parseLeases_loop rest leases (lg @ [d])"
      using parseLeases_loop_skip by blast
    with False show ?thesis
      using Cons.IH by simp
  qed
qed


lemma example_line_full_fields:
  "Fields example_line_full
     = [''1700000000'', ''aa:bb:cc:dd:ee:ff'', ''192.168.1.50'', ''myhost'',
        ''01:aa:bb:cc:dd:ee:ff'']"
  by code_simp

lemma ParseInt_1700000000: "ParseInt ''1700000000'' = (1700000000, None)"
  by code_simp

lemma parseLeases_opened:
  "os_Open w p = Inr file \<Longrightarrow> snd (Scanner_lines (bytes file) (read_err file)) = None \<Longrightarrow>
   parseLeases w p
     = ((fst (parseLeases_loop (fst (Scanner_lines (bytes file) (read_err file))) [] (log w)), None),
        w\<lparr>log := snd (parseLeases_loop (fst (Scanner_lines (bytes file) (read_err file))) []
               (log w))\<rparr>)"
  by (simp add: parseLeases_def Let_def)


text \<open>Evaluating the scanner and the example world.\<close>

lemmas Scanner_lines_eval =
  Scanner_lines.simps [of "[]"] Scanner_lines.simps [of "_ # _"]

lemma example_world_opens:
  "os_Open example_world (main_leaseFilePath example_world) = Inr example_file"
  "os_Open example_world leasesFilePath = Inr example_file"
  by (simp_all add: os_Open_def main_leaseFilePath_def Getenv_def example_world_def
      defaultLeaseFilePath_def leasesFilePath_def)

lemma example_file_lines:
  "Scanner_lines (bytes example_file) (read_err example_file)
     = ([''x y'', example_line_full, example_line_short], None)"
  by (simp add: example_file_def example_line_full_def example_line_short_def
      Scanner_lines_eval MaxScanTokenSize_def dropCR_def)

lemma malformed_example_fields: "Fields ''x y'' = [''x'', ''y'']"
  by code_simp

lemma map_filter_by_index:
  "map f (filter P ls) = map (\<lambda>i. f (ls ! i)) (filter (\<lambda>i. P (ls ! i)) [0..<length ls])"
proof -
  have "filter P ls = filter P (map (nth ls) [0..<length ls])"
    by (simp add: map_nth)
  also have "\<dots> = map (nth ls) (filter (\<lambda>i. P (ls ! i)) [0..<length ls])"
    by (simp add: filter_map comp_def)
  finally show ?thesis
    by (simp add: comp_def)
qed

lemma main_leases_eq:
  "fst (main_leases file lg)
     = map spec_record_strict
         (filter spec_well_formed_strict (fst (Scanner_lines (bytes file) (read_err file))))"
  by (simp add: main_leases_def main_scan_loop_leases)

lemma example_line_short_fields:
  "Fields example_line_short
     = [''1700000000'', ''aa:bb:cc:dd:ee:ff'', ''192.168.1.50'', ''*'']"
  by code_simp

lemma example_lines_well_formed:
  "\<not> spec_well_formed_strict ''x y''"
  "spec_well_formed_strict example_line_full"
  "\<not> spec_well_formed_strict example_line_short"
  "\<not> spec_well_formed_lenient ''x y''"
  "spec_well_formed_lenient example_line_full"
  "spec_well_formed_lenient example_line_short"
  by (simp_all add: spec_well_formed_strict_def spec_well_formed_lenient_def
      malformed_example_fields example_line_full_fields example_line_short_fields
      ParseInt_1700000000)

lemma example_records:
  "spec_record_strict example_line_full
     = \<lparr>ExpiryTime = time_Unix 1700000000, MACAddress = ''aa:bb:cc:dd:ee:ff'',
        IPAddress = ''192.168.1.50'', Hostname = ''myhost'',
        ClientID = ''01:aa:bb:cc:dd:ee:ff''\<rparr>"
  "spec_record_lenient example_line_full
     = \<lparr>ExpiryTime' = time_Unix 1700000000, MACAddress' = ''aa:bb:cc:dd:ee:ff'',
        IPAddress' = ''192.168.1.50'', Hostname' = ''myhost'',
        ClientID' = ''01:aa:bb:cc:dd:ee:ff''\<rparr>"
  "spec_record_lenient example_line_short
     = \<lparr>ExpiryTime' = time_Unix 1700000000, MACAddress' = ''aa:bb:cc:dd:ee:ff'',
        IPAddress' = ''192.168.1.50'', Hostname' = ''N/A'', ClientID' = ''N/A''\<rparr>"
  by (simp_all add: spec_record_strict_def spec_record_lenient_def
      example_line_full_fields example_line_short_fields ParseInt_1700000000)





lemma cli_main_opened:
  "os_Open w (main_leaseFilePath w) = Inr file \<Longrightarrow>
   snd (Scanner_lines (bytes file) (read_err file)) = None \<Longrightarrow>
   fst (cli_main w)
     = (if fst (main_leases file []) = []
        then \<lparr>stdout = [Println no_entries_message], exit_code = 0\<rparr>
        else \<lparr>stdout = [Tabwriter_Flush (table_header
                            @ map (table_row w) (fst (main_leases file [])))],
              exit_code = 0\<rparr>)"
  by (simp add: cli_main_def Let_def main_leases_eq)

lemma parseLeases_error_iff:
  "snd (fst (parseLeases w p)) \<noteq> None
     \<longleftrightarrow> (\<exists>e. os_Open w p = Inl e)
         \<or> (\<exists>file e. os_Open w p = Inr file
               \<and> snd (Scanner_lines (bytes file) (read_err file)) = Some e)"
  by (auto simp: parseLeases_def Let_def split: sum.splits option.splits)

lemma parseLeases_error_text:
  "snd (fst (parseLeases w p)) = Some err \<Longrightarrow>
   (\<exists>e. os_Open w p = Inl e \<and> err = msg_open_failed @ p @ '': '' @ e)
   \<or> (\<exists>file e. os_Open w p = Inr file
         \<and> snd (Scanner_lines (bytes file) (read_err file)) = Some e
         \<and> err = msg_read_failed @ p @ '': '' @ e)"
  by (auto simp: parseLeases_def Let_def split: sum.splits option.splits)

lemma leaseHandler_failed:
  "snd (fst (parseLeases w leasesFilePath)) = Some err \<Longrightarrow>
   fst (leaseHandler w) = http_Error (msg_handler_failed @ err) StatusInternalServerError"
  by (auto simp: leaseHandler_def split: prod.splits option.splits)

lemma os_Open_missing:
  "files w p = None \<Longrightarrow> os_Open w p = Inl (''open '' @ p @ '': no such file or directory'')"
  by (simp add: os_Open_def)

lemma Scanner_lines_error:
  "snd (Scanner_lines buf err) = err \<or> snd (Scanner_lines buf err) = Some ErrTooLong"
proof (induction buf err rule: Scanner_lines.induct)
  case (1 buf err)
  show ?case
  proof (cases "MaxScanTokenSize \<le> length (takeWhile (\<lambda>c. c \<noteq> CHR 0x0A) buf)")
    case True
    then show ?thesis
      by (simp add: Scanner_lines.simps [of buf] Let_def)
  next
    case short: False
    show ?thesis
    proof (cases "dropWhile (\<lambda>c. c \<noteq> CHR 0x0A) buf = []")
      case True
      with short show ?thesis
        by (simp add: Scanner_lines.simps [of buf] Let_def)
    next
      case False
      with short "1.IH" [OF refl refl] show ?thesis
        by (simp add: Scanner_lines.simps [of buf] Let_def)
    qed
  qed
qed

lemma faulty_file_lines:
  "Scanner_lines (bytes faulty_file) (read_err faulty_file)
     = ([example_line_full, ''1700000''],
        Some ''read /var/lib/misc/dnsmasq.leases: input/output error'')"
  by (simp add: faulty_file_def example_line_full_def Scanner_lines_eval
      MaxScanTokenSize_def dropCR_def)

lemma parseLeases_files: "files (snd (parseLeases w p)) = files w"
proof (cases "os_Open w p")
  case (Inl e)
  then show ?thesis by (simp add: parseLeases_def)
next
  case (Inr f)
  then show ?thesis
    by (cases "snd (Scanner_lines (bytes f) (read_err f))")
      (simp_all add: parseLeases_def Let_def)
qed

lemma os_Open_cong: "files w' p = files w p \<Longrightarrow> os_Open w' p = os_Open w p"
  by (simp add: os_Open_def)

lemma parseLeases_same_file:
  assumes "files w' p = files w p"
  shows "fst (parseLeases w' p) = fst (parseLeases w p)"
proof (cases "os_Open w p")
  case (Inl e)
  then show ?thesis
    by (simp add: parseLeases_def os_Open_cong [OF assms])
next
  case (Inr f)
  then show ?thesis
    by (cases "snd (Scanner_lines (bytes f) (read_err f))")
      (simp_all add: parseLeases_def Let_def os_Open_cong [OF assms] parseLeases_loop_leases)
qed

lemma log_irrelevant:
  "Getenv (w\<lparr>log := l\<rparr>) key = Getenv w key"
  "main_leaseFilePath (w\<lparr>log := l\<rparr>) = main_leaseFilePath w"
  "os_Open (w\<lparr>log := l\<rparr>) p = os_Open w p"
  "table_row (w\<lparr>log := l\<rparr>) = table_row w"
  by (simp_all add: Getenv_def main_leaseFilePath_def os_Open_def table_row_def fun_eq_iff)

lemma cli_main_outcome:
  "fst (cli_main w)
     = (case os_Open w (main_leaseFilePath w) of
          Inl err \<Rightarrow> \<lparr>stdout = [], exit_code = 1\<rparr>
        | Inr file \<Rightarrow>
            (case snd (Scanner_lines (bytes file) (read_err file)) of
               Some err \<Rightarrow> \<lparr>stdout = [], exit_code = 1\<rparr>
             | None \<Rightarrow>
                 if fst (main_leases file []) = []
                 then \<lparr>stdout = [Println no_entries_message], exit_code = 0\<rparr>
                 else \<lparr>stdout = [Tabwriter_Flush (table_header
                                     @ map (table_row w) (fst (main_leases file [])))],
                       exit_code = 0\<rparr>))"
proof (cases "os_Open w (main_leaseFilePath w)")
  case (Inl e)
  then show ?thesis by (simp add: cli_main_def Let_def)
next
  case (Inr f)
  then show ?thesis
    by (cases "snd (Scanner_lines (bytes f) (read_err f))")
      (simp_all add: cli_main_def Let_def main_leases_eq)
qed

lemma cli_main_world: "\<exists>l. snd (cli_main w) = w\<lparr>log := l\<rparr>"
proof (cases "os_Open w (main_leaseFilePath w)")
  case (Inl e)
  then show ?thesis by (auto simp: cli_main_def Let_def)
next
  case (Inr f)
  then show ?thesis
    by (cases "snd (Scanner_lines (bytes f) (read_err f))")
      (auto simp: cli_main_def Let_def)
qed

lemma cli_main_log: "fst (cli_main (w\<lparr>log := l\<rparr>)) = fst (cli_main w)"
  by (simp add: cli_main_outcome log_irrelevant cong: sum.case_cong option.case_cong if_cong)

lemma example_world_parsed:
  "parseLeases example_world leasesFilePath
     = ((map spec_record_lenient [example_line_full, example_line_short], None),
        example_world\<lparr>log := [Web_skip_field_count ''x y'']\<rparr>)"
proof -
  have loop: "parseLeases_loop [''x y'', example_line_full, example_line_short] [] []
      = (map spec_record_lenient [example_line_full, example_line_short],
         [Web_skip_field_count ''x y''])"
    by (simp add: parseLeases_loop.simps(2) malformed_example_fields
        example_line_full_fields example_line_short_fields ParseInt_1700000000
        spec_record_lenient_def)
  have "log example_world = []"
    by (simp add: example_world_def)
  then show ?thesis
    by (simp add: parseLeases_opened [OF example_world_opens(2)] example_file_lines loop)
qed

lemma sentinel_line_fields:
  "Fields sentinel_line = [''1700000000'', ''aa:bb:cc:dd:ee:ff'', ''192.168.1.50'', ''*'', ''*'']"
  by code_simp




























section \<open>The claims\<close>







text \<open>
  C3. The records of an input are the records of its well-formed lines, in the order of
  the lines: record number \<open>j\<close> comes from the line at the \<open>j\<close>-th index among the
  indices of the well-formed lines, and these indices increase strictly, so nothing is
  sorted and every record comes from exactly one well-formed line. There are as many
  records as well-formed lines, so lines with the same MAC or IP address are not merged.
  This holds for the loops of both programs, and so for the slice \<open>leases\<close> of \<open>main\<close>
  and for the result of \<open>parseLeases\<close> on a file read without error.
\<close>

theorem records_keep_line_order:
  "fst (main_scan_loop ls k [] lg)
     = map (\<lambda>i. spec_record_strict (ls ! i))
         (filter (\<lambda>i. spec_well_formed_strict (ls ! i)) [0..<length ls])
   \<and> fst (parseLeases_loop ls [] lg)
     = map (\<lambda>i. spec_record_lenient (ls ! i))
         (filter (\<lambda>i. spec_well_formed_lenient (ls ! i)) [0..<length ls])
   \<and> sorted_wrt (<) (filter (\<lambda>i. spec_well_formed_strict (ls ! i)) [0..<length ls])
   \<and> sorted_wrt (<) (filter (\<lambda>i. spec_well_formed_lenient (ls ! i)) [0..<length ls])
   \<and> length (fst (main_scan_loop ls k [] lg)) = length (filter spec_well_formed_strict ls)
   \<and> length (fst (parseLeases_loop ls [] lg)) = length (filter spec_well_formed_lenient ls)
   \<and> fst (main_leases file lg)
     = map spec_record_strict
         (filter spec_well_formed_strict (fst (Scanner_lines (bytes file) (read_err file))))
   \<and> (os_Open w p = Inr file \<and> snd (Scanner_lines (bytes file) (read_err file)) = None
      \<longrightarrow> fst (fst (parseLeases w p))
          = map spec_record_lenient
              (filter spec_well_formed_lenient
                 (fst (Scanner_lines (bytes file) (read_err file)))))"
proof (intro conjI)
  show "fst (main_scan_loop ls k [] lg)
     = map (\<lambda>i. spec_record_strict (ls ! i))
         (filter (\<lambda>i. spec_well_formed_strict (ls ! i)) [0..<length ls])"
    by (simp add: main_scan_loop_leases map_filter_by_index [symmetric])
  show "fst (parseLeases_loop ls [] lg)
     = map (\<lambda>i. spec_record_lenient (ls ! i))
         (filter (\<lambda>i. spec_well_formed_lenient (ls ! i)) [0..<length ls])"
    by (simp add: parseLeases_loop_leases map_filter_by_index [symmetric])
  show "sorted_wrt (<) (filter (\<lambda>i. spec_well_formed_strict (ls ! i)) [0..<length ls])"
    by (rule sorted_wrt_filter) simp
  show "sorted_wrt (<) (filter (\<lambda>i. spec_well_formed_lenient (ls ! i)) [0..<length ls])"
    by (rule sorted_wrt_filter) simp
  show "length (fst (main_scan_loop ls k [] lg)) = length (filter spec_well_formed_strict ls)"
    by (simp add: main_scan_loop_leases)
  show "length (fst (parseLeases_loop ls [] lg)) = length (filter spec_well_formed_lenient ls)"
    by (simp add: parseLeases_loop_leases)
  show "fst (main_leases file lg)
     = map spec_record_strict
         (filter spec_well_formed_strict (fst (Scanner_lines (bytes file) (read_err file))))"
    by (rule main_leases_eq)
  show "os_Open w p = Inr file \<and> snd (Scanner_lines (bytes file) (read_err file)) = None
      \<longrightarrow> fst (fst (parseLeases w p))
          = map spec_record_lenient
              (filter spec_well_formed_lenient
                 (fst (Scanner_lines (bytes file) (read_err file))))"
    by (simp add: parseLeases_opened parseLeases_loop_leases)
qed

theorem records_keep_line_order_witness:
  "os_Open example_world leasesFilePath = Inr example_file
   \<and> snd (Scanner_lines (bytes example_file) (read_err example_file)) = None
   \<and> fst (fst (parseLeases example_world leasesFilePath))
       = [\<lparr>ExpiryTime' = time_Unix 1700000000, MACAddress' = ''aa:bb:cc:dd:ee:ff'',
           IPAddress' = ''192.168.1.50'', Hostname' = ''myhost'',
           ClientID' = ''01:aa:bb:cc:dd:ee:ff''\<rparr>,
          \<lparr>ExpiryTime' = time_Unix 1700000000, MACAddress' = ''aa:bb:cc:dd:ee:ff'',
           IPAddress' = ''192.168.1.50'', Hostname' = ''N/A'', ClientID' = ''N/A''\<rparr>]
   \<and> fst (main_leases example_file [])
       = [\<lparr>ExpiryTime = time_Unix 1700000000, MACAddress = ''aa:bb:cc:dd:ee:ff'',
           IPAddress = ''192.168.1.50'', Hostname = ''myhost'',
           ClientID = ''01:aa:bb:cc:dd:ee:ff''\<rparr>]"
proof -
  have scan: "snd (Scanner_lines (bytes example_file) (read_err example_file)) = None"
    by (simp add: example_file_lines)
  note inst = records_keep_line_order
    [of "[]" 0 "[]" example_file example_world leasesFilePath]
  from inst scan example_world_opens(2) show ?thesis
    by (simp add: example_file_lines example_lines_well_formed example_records)
qed




text \<open>
  C5, as stated, fails: on an empty record sequence \<open>main\<close> returns before it creates
  the \<open>tabwriter\<close>. With an empty lease file the whole standard output is the line of
  the message; no header row and no separator row is written.
\<close>

theorem empty_table_has_no_header_counterexample:
  "fst (cli_main empty_world)
     = \<lparr>stdout = [Println ''No lease entries found or file is empty.''], exit_code = 0\<rparr>
   \<and> (\<forall>rows. Tabwriter_Flush rows \<notin> set (stdout (fst (cli_main empty_world))))"
proof -
  have opens: "os_Open empty_world (main_leaseFilePath empty_world)
      = Inr \<lparr>bytes = [], read_err = None\<rparr>"
    by (simp add: os_Open_def main_leaseFilePath_def Getenv_def empty_world_def
        defaultLeaseFilePath_def)
  have scan: "Scanner_lines [] None = ([], None)"
    by (simp add: Scanner_lines_eval MaxScanTokenSize_def)
  have "fst (cli_main empty_world)
      = \<lparr>stdout = [Println ''No lease entries found or file is empty.''], exit_code = 0\<rparr>"
    using cli_main_opened [OF opens] by (simp add: scan main_leases_eq no_entries_message_def)
  then show ?thesis
    by simp
qed

text \<open>
  C5, amended. When the file opens and is read without error and no record was parsed,
  the command-line program prints only the message
  \<open>No lease entries found or file is empty.\<close> and exits with status 0. The header row
  and the separator row are written, before the rows of the records, only when there is
  at least one record.
\<close>

theorem empty_leases_message_only:
  "(os_Open w (main_leaseFilePath w) = Inr file
      \<and> snd (Scanner_lines (bytes file) (read_err file)) = None
      \<and> fst (main_leases file []) = []
    \<longrightarrow> fst (cli_main w)
          = \<lparr>stdout = [Println ''No lease entries found or file is empty.''],
             exit_code = 0\<rparr>)
   \<and> (os_Open w (main_leaseFilePath w) = Inr file
      \<and> snd (Scanner_lines (bytes file) (read_err file)) = None
      \<and> fst (main_leases file []) \<noteq> []
    \<longrightarrow> fst (cli_main w)
          = \<lparr>stdout = [Tabwriter_Flush (table_header
                           @ map (table_row w) (fst (main_leases file [])))],
             exit_code = 0\<rparr>)"
  by (simp add: cli_main_opened no_entries_message_def)

theorem empty_leases_message_only_witness:
  "os_Open empty_world (main_leaseFilePath empty_world) = Inr \<lparr>bytes = [], read_err = None\<rparr>
   \<and> snd (Scanner_lines [] None) = None
   \<and> fst (main_leases \<lparr>bytes = [], read_err = None\<rparr> []) = []
   \<and> fst (cli_main empty_world)
       = \<lparr>stdout = [Println ''No lease entries found or file is empty.''], exit_code = 0\<rparr>
   \<and> os_Open example_world (main_leaseFilePath example_world) = Inr example_file
   \<and> snd (Scanner_lines (bytes example_file) (read_err example_file)) = None
   \<and> fst (main_leases example_file []) \<noteq> []
   \<and> fst (cli_main example_world)
       = \<lparr>stdout = [Tabwriter_Flush (table_header
                        @ map (table_row example_world) (fst (main_leases example_file [])))],
          exit_code = 0\<rparr>"
proof -
  have opens: "os_Open empty_world (main_leaseFilePath empty_world)
      = Inr \<lparr>bytes = [], read_err = None\<rparr>"
    by (simp add: os_Open_def main_leaseFilePath_def Getenv_def empty_world_def
        defaultLeaseFilePath_def)
  have scan: "Scanner_lines [] None = ([], None)"
    by (simp add: Scanner_lines_eval MaxScanTokenSize_def)
  have none: "fst (main_leases \<lparr>bytes = [], read_err = None\<rparr> []) = []"
    by (simp add: main_leases_eq scan)
  have some: "fst (main_leases example_file []) \<noteq> []"
    by (simp add: main_leases_eq example_file_lines example_lines_well_formed)
  have scan': "snd (Scanner_lines (bytes example_file) (read_err example_file)) = None"
    by (simp add: example_file_lines)
  have empty_case: "fst (cli_main empty_world)
      = \<lparr>stdout = [Println ''No lease entries found or file is empty.''], exit_code = 0\<rparr>"
    using empty_leases_message_only
      [of empty_world "\<lparr>bytes = [], read_err = None\<rparr>", THEN conjunct1]
      opens scan none by simp
  have table_case: "fst (cli_main example_world)
      = \<lparr>stdout = [Tabwriter_Flush (table_header
                       @ map (table_row example_world) (fst (main_leases example_file [])))],
         exit_code = 0\<rparr>"
    using empty_leases_message_only [of example_world example_file, THEN conjunct2]
      example_world_opens(1) scan' some by simp
  from opens scan none some scan' empty_case table_case example_world_opens(1)
  show ?thesis
    by simp
qed

text \<open>
  C6, as stated, fails for the command-line program: the short example line has four
  fields, and \<open>main\<close> skips every line that has not exactly five, so the line yields no
  record there, only the warning about its field count.
\<close>

theorem short_line_rejected_by_cli_counterexample:
  "length (Fields example_line_short) = 4
   \<and> main_scan_loop [example_line_short] 0 [] []
       = ([], [Skip_field_count 1 4 example_line_short])"
  by (simp add: example_line_short_fields main_scan_loop.simps(2))

text \<open>
  C6, amended. In the web program the short example line yields exactly one record,
  with the hostname \<open>*\<close> replaced by \<open>N/A\<close> and the missing client ID set to \<open>N/A\<close>, and
  no warning. In the command-line program the same line yields no record and one
  warning.
\<close>

theorem short_line_in_each_variant:
  "fst (parseLeases_loop [example_line_short] [] [])
     = [\<lparr>ExpiryTime' = time_Unix 1700000000,
         MACAddress' = ''aa:bb:cc:dd:ee:ff'',
         IPAddress' = ''192.168.1.50'',
         Hostname' = ''N/A'',
         ClientID' = ''N/A''\<rparr>]
   \<and> snd (parseLeases_loop [example_line_short] [] []) = []
   \<and> main_scan_loop [example_line_short] 0 [] []
       = ([], [Skip_field_count 1 4 example_line_short])"
  by (simp add: example_line_short_fields main_scan_loop.simps(2) parseLeases_loop.simps(2)
      ParseInt_1700000000)

theorem short_line_in_each_variant_witness:
  "length (fst (parseLeases_loop [example_line_short] [] [])) = 1
   \<and> map Hostname' (fst (parseLeases_loop [example_line_short] [] [])) = [''N/A'']
   \<and> map ClientID' (fst (parseLeases_loop [example_line_short] [] [])) = [''N/A'']
   \<and> length (fst (main_scan_loop [example_line_short] 0 [] [])) = 0"
  using short_line_in_each_variant by simp

text \<open>
  C7. When \<open>parseLeases\<close> on the configured path returns an error, the response of
  \<open>leaseHandler\<close> has status 500 and a plain-text body made of the handler's message, the
  error and a newline; the error names the path, so the body contains it, and the body
  is no page of leases. \<open>parseLeases\<close> returns an error exactly when the file cannot be
  opened or the scanner ends with an error. Nothing of an earlier request is served:
  after any request, once the file is gone, the next response has status 500.
\<close>

theorem parse_failure_is_server_error:
  "(snd (fst (parseLeases w leasesFilePath)) = Some err \<longrightarrow>
      fst (leaseHandler w)
        = \<lparr>status = 500,
           headers = [(''Content-Type'', ''text/plain; charset=utf-8''),
                      (''X-Content-Type-Options'', ''nosniff'')],
           body = Text (msg_handler_failed @ err @ [CHR 0x0A])\<rparr>
      \<and> (\<exists>e. err = msg_open_failed @ leasesFilePath @ '': '' @ e
             \<or> err = msg_read_failed @ leasesFilePath @ '': '' @ e)
      \<and> sublist leasesFilePath (body_text (body (fst (leaseHandler w)))))
   \<and> ((\<exists>err. snd (fst (parseLeases w leasesFilePath)) = Some err)
        \<longleftrightarrow> (\<exists>e. os_Open w leasesFilePath = Inl e)
            \<or> (\<exists>file e. os_Open w leasesFilePath = Inr file
                  \<and> snd (Scanner_lines (bytes file) (read_err file)) = Some e))
   \<and> status (fst (leaseHandler ((snd (leaseHandler w))\<lparr>files := (files w)(leasesFilePath := None)\<rparr>)))
       = 500"
proof (intro conjI impI)
  assume failed: "snd (fst (parseLeases w leasesFilePath)) = Some err"
  then show resp: "fst (leaseHandler w)
        = \<lparr>status = 500,
           headers = [(''Content-Type'', ''text/plain; charset=utf-8''),
                      (''X-Content-Type-Options'', ''nosniff'')],
           body = Text (msg_handler_failed @ err @ [CHR 0x0A])\<rparr>"
    by (simp add: leaseHandler_failed http_Error_def StatusInternalServerError_def)
  from parseLeases_error_text [OF failed]
  show named: "\<exists>e. err = msg_open_failed @ leasesFilePath @ '': '' @ e
             \<or> err = msg_read_failed @ leasesFilePath @ '': '' @ e"
    by blast
  then obtain pre post where "err = pre @ leasesFilePath @ post"
    by blast
  then have "body_text (body (fst (leaseHandler w)))
      = (msg_handler_failed @ pre) @ leasesFilePath @ (post @ [CHR 0x0A])"
    by (simp add: resp)
  then show "sublist leasesFilePath (body_text (body (fst (leaseHandler w))))"
    unfolding sublist_def by blast
next
  show "(\<exists>err. snd (fst (parseLeases w leasesFilePath)) = Some err)
        \<longleftrightarrow> (\<exists>e. os_Open w leasesFilePath = Inl e)
            \<or> (\<exists>file e. os_Open w leasesFilePath = Inr file
                  \<and> snd (Scanner_lines (bytes file) (read_err file)) = Some e)"
    using parseLeases_error_iff [of w leasesFilePath] by simp
next
  let ?w = "(snd (leaseHandler w))\<lparr>files := (files w)(leasesFilePath := None)\<rparr>"
  have "os_Open ?w leasesFilePath
      = Inl (''open '' @ leasesFilePath @ '': no such file or directory'')"
    by (simp add: os_Open_missing)
  then have "snd (fst (parseLeases ?w leasesFilePath))
      = Some (msg_open_failed @ leasesFilePath @ '': ''
              @ ''open '' @ leasesFilePath @ '': no such file or directory'')"
    by (simp add: parseLeases_def)
  then show "status (fst (leaseHandler ?w)) = 500"
    by (simp add: leaseHandler_failed http_Error_def StatusInternalServerError_def)
qed

theorem parse_failure_is_server_error_witness:
  "snd (fst (parseLeases missing_world leasesFilePath))
     = Some (msg_open_failed @ leasesFilePath @ '': ''
             @ ''open '' @ leasesFilePath @ '': no such file or directory'')
   \<and> fst (leaseHandler missing_world)
       = \<lparr>status = 500,
          headers = [(''Content-Type'', ''text/plain; charset=utf-8''),
                     (''X-Content-Type-Options'', ''nosniff'')],
          body = Text (msg_handler_failed
                       @ (msg_open_failed @ leasesFilePath @ '': ''
                          @ ''open '' @ leasesFilePath @ '': no such file or directory'')
                       @ [CHR 0x0A])\<rparr>
   \<and> sublist leasesFilePath (body_text (body (fst (leaseHandler missing_world))))"
proof -
  have "os_Open missing_world leasesFilePath
      = Inl (''open '' @ leasesFilePath @ '': no such file or directory'')"
    by (simp add: os_Open_missing missing_world_def)
  then have failed: "snd (fst (parseLeases missing_world leasesFilePath))
      = Some (msg_open_failed @ leasesFilePath @ '': ''
              @ ''open '' @ leasesFilePath @ '': no such file or directory'')"
    by (simp add: parseLeases_def)
  note inst = parse_failure_is_server_error
    [of missing_world "msg_open_failed @ leasesFilePath @ '': ''
       @ ''open '' @ leasesFilePath @ '': no such file or directory''",
     THEN conjunct1, rule_format, OF failed]
  show ?thesis
    by (intro conjI failed inst [THEN conjunct1] inst [THEN conjunct2, THEN conjunct2])
qed

text \<open>
  C8. Parsing the same unchanged file twice yields the same record sequence. A run
  changes nothing but the log: the file system and the environment are as before. The
  result of \<open>parseLeases\<close> depends on the world only through the file at the path, so a
  second call in the world the first one left returns the same records and error; the
  slice \<open>leases\<close> of \<open>main\<close> does not depend on the log, and a second run of \<open>main\<close> after
  the first has the same output and exit status.
\<close>

theorem parsing_twice_same_records:
  "fst (parseLeases (snd (parseLeases w p)) p) = fst (parseLeases w p)
   \<and> (files w' p = files w p \<longrightarrow> fst (parseLeases w' p) = fst (parseLeases w p))
   \<and> files (snd (parseLeases w p)) = files w
   \<and> fst (main_leases file lg') = fst (main_leases file lg)
   \<and> fst (cli_main (snd (cli_main w))) = fst (cli_main w)
   \<and> files (snd (cli_main w)) = files w
   \<and> env (snd (cli_main w)) = env w"
proof (intro conjI impI)
  show "fst (parseLeases (snd (parseLeases w p)) p) = fst (parseLeases w p)"
    by (rule parseLeases_same_file) (simp add: parseLeases_files)
  show "fst (parseLeases w' p) = fst (parseLeases w p)" if "files w' p = files w p"
    using that by (rule parseLeases_same_file)
  show "files (snd (parseLeases w p)) = files w"
    by (rule parseLeases_files)
  show "fst (main_leases file lg') = fst (main_leases file lg)"
    by (simp add: main_leases_eq)
  obtain l where after: "snd (cli_main w) = w\<lparr>log := l\<rparr>"
    using cli_main_world by blast
  show "fst (cli_main (snd (cli_main w))) = fst (cli_main w)"
    by (simp add: after cli_main_log)
  show "files (snd (cli_main w)) = files w" and "env (snd (cli_main w)) = env w"
    by (simp_all add: after)
qed

theorem parsing_twice_same_records_witness:
  "files (snd (parseLeases example_world leasesFilePath)) leasesFilePath
     = files example_world leasesFilePath
   \<and> fst (parseLeases (snd (parseLeases example_world leasesFilePath)) leasesFilePath)
       = (map spec_record_lenient [example_line_full, example_line_short], None)
   \<and> fst (parseLeases example_world leasesFilePath)
       = (map spec_record_lenient [example_line_full, example_line_short], None)
   \<and> log (snd (parseLeases example_world leasesFilePath)) = [Web_skip_field_count ''x y'']
   \<and> log example_world = []"
proof -
  note inst = parsing_twice_same_records
    [of example_world leasesFilePath "snd (parseLeases example_world leasesFilePath)"]
  have same: "files (snd (parseLeases example_world leasesFilePath)) leasesFilePath
      = files example_world leasesFilePath"
    using inst [THEN conjunct2, THEN conjunct2, THEN conjunct1] by simp
  have first: "fst (parseLeases example_world leasesFilePath)
      = (map spec_record_lenient [example_line_full, example_line_short], None)"
    by (simp add: example_world_parsed)
  have second: "fst (parseLeases (snd (parseLeases example_world leasesFilePath)) leasesFilePath)
       = (map spec_record_lenient [example_line_full, example_line_short], None)"
    using inst [THEN conjunct2, THEN conjunct1, rule_format, OF same] first by simp
  have logged: "log (snd (parseLeases example_world leasesFilePath))
      = [Web_skip_field_count ''x y'']"
    by (simp add: example_world_parsed)
  have fresh: "log example_world = []"
    by (simp add: example_world_def)
  show ?thesis
    by (intro conjI same second first logged fresh)
qed

text \<open>
  C9. When the scanner ends with an error, \<open>parseLeases\<close> returns the empty (nil) record
  sequence together with the error, whatever records the loop had collected from the
  lines before. A read error of the file always ends the scanner with an error (that
  one, or \<open>ErrTooLong\<close> when an over-long line came first). No error is ever returned
  together with records.
\<close>

theorem read_error_returns_no_records:
  "(os_Open w p = Inr file \<and> snd (Scanner_lines (bytes file) (read_err file)) = Some e
      \<longrightarrow> fst (parseLeases w p) = ([], Some (msg_read_failed @ p @ '': '' @ e)))
   \<and> (os_Open w p = Inr file \<and> read_err file = Some e
      \<longrightarrow> fst (parseLeases w p) = ([], Some (msg_read_failed @ p @ '': '' @ e))
          \<or> fst (parseLeases w p) = ([], Some (msg_read_failed @ p @ '': '' @ ErrTooLong)))
   \<and> (\<forall>err. snd (fst (parseLeases w p)) = Some err \<longrightarrow> fst (fst (parseLeases w p)) = [])"
proof (intro conjI impI allI)
  assume "os_Open w p = Inr file \<and> snd (Scanner_lines (bytes file) (read_err file)) = Some e"
  then show "fst (parseLeases w p) = ([], Some (msg_read_failed @ p @ '': '' @ e))"
    by (simp add: parseLeases_def Let_def)
next
  assume opened: "os_Open w p = Inr file \<and> read_err file = Some e"
  then have "snd (Scanner_lines (bytes file) (read_err file)) = Some e
      \<or> snd (Scanner_lines (bytes file) (read_err file)) = Some ErrTooLong"
    using Scanner_lines_error [of "bytes file" "read_err file"] by simp
  with opened show "fst (parseLeases w p) = ([], Some (msg_read_failed @ p @ '': '' @ e))
      \<or> fst (parseLeases w p) = ([], Some (msg_read_failed @ p @ '': '' @ ErrTooLong))"
    by (auto simp: parseLeases_def Let_def)
next
  fix err
  assume "snd (fst (parseLeases w p)) = Some err"
  then show "fst (fst (parseLeases w p)) = []"
    by (auto simp: parseLeases_def Let_def split: sum.splits option.splits)
qed

theorem read_error_returns_no_records_witness:
  "os_Open faulty_world leasesFilePath = Inr faulty_file
   \<and> snd (Scanner_lines (bytes faulty_file) (read_err faulty_file))
       = Some ''read /var/lib/misc/dnsmasq.leases: input/output error''
   \<and> length (fst (parseLeases_loop
        (fst (Scanner_lines (bytes faulty_file) (read_err faulty_file))) [] [])) = 1
   \<and> fst (parseLeases faulty_world leasesFilePath)
       = ([], Some (msg_read_failed @ leasesFilePath @ '': ''
                    @ ''read /var/lib/misc/dnsmasq.leases: input/output error''))"
proof -
  have opens: "os_Open faulty_world leasesFilePath = Inr faulty_file"
    by (simp add: os_Open_def faulty_world_def leasesFilePath_def)
  have scan: "snd (Scanner_lines (bytes faulty_file) (read_err faulty_file))
      = Some ''read /var/lib/misc/dnsmasq.leases: input/output error''"
    by (simp add: faulty_file_lines)
  have fields: "Fields ''1700000'' = [''1700000'']"
    by code_simp
  have parsed: "length (fst (parseLeases_loop
        (fst (Scanner_lines (bytes faulty_file) (read_err faulty_file))) [] [])) = 1"
  proof -
    have "\<not> spec_well_formed_lenient ''1700000''"
      by (simp add: spec_well_formed_lenient_def fields)
    then show ?thesis
      by (simp add: faulty_file_lines parseLeases_loop_leases example_lines_well_formed)
  qed
  note inst = read_error_returns_no_records
    [of faulty_world leasesFilePath faulty_file
        "''read /var/lib/misc/dnsmasq.leases: input/output error''", THEN conjunct1]
  from inst opens scan parsed show ?thesis
    by simp
qed

text \<open>
  C10. In the web program a hostname field \<open>*\<close> becomes \<open>N/A\<close> and every other hostname
  is kept; a missing fifth field makes the client ID \<open>N/A\<close>; a fifth field that is
  present is kept, also when it is \<open>*\<close>. In the command-line program hostname and
  client ID are the fourth and fifth field as they are, also when they are \<open>*\<close>.
\<close>

theorem sentinel_normalisation:
  "(4 \<le> length (Fields line) \<and> snd (ParseInt (Fields line ! 0)) = None
      \<and> Fields line ! 3 = ''*''
    \<longrightarrow> map Hostname' (fst (parseLeases_loop [line] [] lg)) = [''N/A''])
   \<and> (4 \<le> length (Fields line) \<and> snd (ParseInt (Fields line ! 0)) = None
      \<and> Fields line ! 3 \<noteq> ''*''
    \<longrightarrow> map Hostname' (fst (parseLeases_loop [line] [] lg)) = [Fields line ! 3])
   \<and> (length (Fields line) = 4 \<and> snd (ParseInt (Fields line ! 0)) = None
    \<longrightarrow> map ClientID' (fst (parseLeases_loop [line] [] lg)) = [''N/A''])
   \<and> (4 < length (Fields line) \<and> snd (ParseInt (Fields line ! 0)) = None
    \<longrightarrow> map ClientID' (fst (parseLeases_loop [line] [] lg)) = [Fields line ! 4])
   \<and> (4 < length (Fields line) \<and> snd (ParseInt (Fields line ! 0)) = None
      \<and> Fields line ! 4 = ''*''
    \<longrightarrow> map ClientID' (fst (parseLeases_loop [line] [] lg)) = [''*''])
   \<and> (length (Fields line) = 5 \<and> snd (ParseInt (Fields line ! 0)) = None
    \<longrightarrow> map Hostname (fst (main_scan_loop [line] k [] lg)) = [Fields line ! 3]
        \<and> map ClientID (fst (main_scan_loop [line] k [] lg)) = [Fields line ! 4])
   \<and> (length (Fields line) = 5 \<and> snd (ParseInt (Fields line ! 0)) = None
      \<and> Fields line ! 3 = ''*'' \<and> Fields line ! 4 = ''*''
    \<longrightarrow> map Hostname (fst (main_scan_loop [line] k [] lg)) = [''*'']
        \<and> map ClientID (fst (main_scan_loop [line] k [] lg)) = [''*''])"
  by (simp add: main_scan_loop_leases parseLeases_loop_leases spec_well_formed_strict_def
      spec_well_formed_lenient_def spec_record_strict_def spec_record_lenient_def)

theorem sentinel_normalisation_witness:
  "length (Fields sentinel_line) = 5
   \<and> snd (ParseInt (Fields sentinel_line ! 0)) = None
   \<and> Fields sentinel_line ! 3 = ''*''
   \<and> Fields sentinel_line ! 4 = ''*''
   \<and> map Hostname' (fst (parseLeases_loop [sentinel_line] [] [])) = [''N/A'']
   \<and> map ClientID' (fst (parseLeases_loop [sentinel_line] [] [])) = [''*'']
   \<and> map Hostname (fst (main_scan_loop [sentinel_line] 0 [] [])) = [''*'']
   \<and> map ClientID (fst (main_scan_loop [sentinel_line] 0 [] [])) = [''*'']
   \<and> length (Fields example_line_short) = 4
   \<and> map ClientID' (fst (parseLeases_loop [example_line_short] [] [])) = [''N/A'']
   \<and> Fields example_line_full ! 3 \<noteq> ''*''
   \<and> map Hostname' (fst (parseLeases_loop [example_line_full] [] [])) = [''myhost'']"
proof -
  have hyps: "length (Fields sentinel_line) = 5"
    "snd (ParseInt (Fields sentinel_line ! 0)) = None"
    "Fields sentinel_line ! 3 = ''*''" "Fields sentinel_line ! 4 = ''*''"
    by (simp_all add: sentinel_line_fields ParseInt_1700000000)
  have short: "length (Fields example_line_short) = 4"
    "snd (ParseInt (Fields example_line_short ! 0)) = None"
    by (simp_all add: example_line_short_fields ParseInt_1700000000)
  have full: "4 \<le> length (Fields example_line_full)"
    "snd (ParseInt (Fields example_line_full ! 0)) = None"
    "Fields example_line_full ! 3 \<noteq> ''*''" "Fields example_line_full ! 3 = ''myhost''"
    by (simp_all add: example_line_full_fields ParseInt_1700000000)
  note s = sentinel_normalisation [of sentinel_line "[]" 0]
  note e = sentinel_normalisation [of example_line_short "[]" 0]
  note f = sentinel_normalisation [of example_line_full "[]" 0]
  have "map Hostname' (fst (parseLeases_loop [sentinel_line] [] [])) = [''N/A'']"
    using s hyps by simp
  moreover have "map ClientID' (fst (parseLeases_loop [sentinel_line] [] [])) = [''*'']"
    using s hyps by simp
  moreover have "map Hostname (fst (main_scan_loop [sentinel_line] 0 [] [])) = [''*'']"
    and "map ClientID (fst (main_scan_loop [sentinel_line] 0 [] [])) = [''*'']"
    using s hyps by simp_all
  moreover have "map ClientID' (fst (parseLeases_loop [example_line_short] [] [])) = [''N/A'']"
    using e short by simp
  moreover have "map Hostname' (fst (parseLeases_loop [example_line_full] [] [])) = [''myhost'']"
    using f full by simp
  ultimately show ?thesis
    using hyps short(1) full(3) by simp
qed

end
